theory Spec2Isabelle
  imports Main "HOL-Library.Sublist" "HOL-Library.AList" "HOL-Library.Word"
begin

section \<open>Python values\<close>

text \<open>
  The server is a single Python module, \<^verbatim>\<open>server.py\<close>. A Python \<^verbatim>\<open>str\<close> is modelled
  as a HOL \<^typ>\<open>string\<close>, a \<^verbatim>\<open>bytes\<close> value as a list of 8-bit words, an \<^verbatim>\<open>int\<close> as
  \<^typ>\<open>int\<close>. The model is exact on ASCII text: the case mapping and the white-space
  test below are the ASCII parts of \<^verbatim>\<open>str.lower\<close> and \<^verbatim>\<open>str.strip\<close>, and characters
  from \<^verbatim>\<open>0x80\<close> on are left alone. Log output is not modelled.
\<close>

type_synonym bytes = "8 word list"

text \<open>The dictionaries the two tools return (\<^verbatim>\<open>Dict[str, Any]\<close>), in key order.\<close>

datatype pyval =
    PyNone
  | PyBool bool
  | PyInt int
  | PyStr string
  | PyList "pyval list"
  | PyDict "(string \<times> pyval) list"

text \<open>\<^verbatim>\<open>d.get(k)\<close> on a returned dictionary; a value that is no dictionary has no keys.\<close>

definition dict_get :: "pyval \<Rightarrow> string \<Rightarrow> pyval option" where
  "dict_get d k = (case d of PyDict kvs \<Rightarrow> map_of kvs k | _ \<Rightarrow> None)"

text \<open>Exceptions, by the two classes the handlers of \<^verbatim>\<open>download_twilio_audio\<close> tell apart.\<close>

datatype exn =
    ValueError string
  | RequestException string
  | OtherException string

fun exn_str :: "exn \<Rightarrow> string" where
  "exn_str (ValueError m) = m"
| "exn_str (RequestException m) = m"
| "exn_str (OtherException m) = m"

section \<open>String operations\<close>

definition is_upper :: "char \<Rightarrow> bool" where
  "is_upper c = (65 \<le> (of_char c :: nat) \<and> (of_char c :: nat) \<le> 90)"

definition is_lower :: "char \<Rightarrow> bool" where
  "is_lower c = (97 \<le> (of_char c :: nat) \<and> (of_char c :: nat) \<le> 122)"

definition is_digit :: "char \<Rightarrow> bool" where
  "is_digit c = (48 \<le> (of_char c :: nat) \<and> (of_char c :: nat) \<le> 57)"

definition lower_char :: "char \<Rightarrow> char" where
  "lower_char c = (if is_upper c then char_of ((of_char c :: nat) + 32) else c)"

text \<open>\<^verbatim>\<open>s.lower()\<close>\<close>

definition lower :: "string \<Rightarrow> string" where
  "lower s = map lower_char s"

text \<open>
  The characters \<^verbatim>\<open>str.strip()\<close> removes: \<^verbatim>\<open>\t \n \x0b \x0c \r\<close>, \<^verbatim>\<open>\x1c\<close> to
  \<^verbatim>\<open>\x1f\<close>, and the space.
\<close>

definition is_space :: "char \<Rightarrow> bool" where
  "is_space c = (let n = (of_char c :: nat) in (9 \<le> n \<and> n \<le> 13) \<or> (28 \<le> n \<and> n \<le> 32))"

text \<open>\<^verbatim>\<open>s.strip()\<close>\<close>

definition strip :: "string \<Rightarrow> string" where
  "strip s = rev (dropWhile is_space (rev (dropWhile is_space s)))"

text \<open>\<^verbatim>\<open>s.split(c)\<close> for a one-character separator: never the empty list.\<close>

fun split :: "char \<Rightarrow> string \<Rightarrow> string list" where
  "split c [] = [[]]"
| "split c (x # xs) =
     (if x = c then [] # split c xs
      else (let r = split c xs in (x # hd r) # tl r))"

text \<open>
  \<^verbatim>\<open>a, b = s.split(c, 1)\<close> where \<^verbatim>\<open>c in s\<close>: the text before the first \<open>c\<close> and the
  text after it.
\<close>

definition split1 :: "char \<Rightarrow> string \<Rightarrow> string \<times> string" where
  "split1 c s = (takeWhile (\<lambda>x. x \<noteq> c) s, drop 1 (dropWhile (\<lambda>x. x \<noteq> c) s))"

text \<open>\<^verbatim>\<open>s.startswith(p)\<close> and \<^verbatim>\<open>sub in s\<close>\<close>

definition startswith :: "string \<Rightarrow> string \<Rightarrow> bool" where
  "startswith s p = prefix p s"

definition str_in :: "string \<Rightarrow> string \<Rightarrow> bool" where
  "str_in sub s = sublist sub s"

section \<open>ContentTypeResolver\<close>

definition extension_map :: "(string \<times> string) list" where
  "extension_map =
    [(''audio/wav'', ''.wav''),
     (''audio/x-wav'', ''.wav''),
     (''audio/wave'', ''.wav''),
     (''audio/mpeg'', ''.mp3''),
     (''audio/mp3'', ''.mp3''),
     (''audio/mp4'', ''.m4a''),
     (''audio/m4a'', ''.m4a''),
     (''audio/aac'', ''.aac''),
     (''audio/ogg'', ''.ogg''),
     (''audio/flac'', ''.flac''),
     (''audio/webm'', ''.webm''),
     (''audio/3gpp'', ''.3gp''),
     (''audio/amr'', ''.amr'')]"

definition get_file_extension_from_content_type :: "string \<Rightarrow> string" where
  "get_file_extension_from_content_type content_type =
     (let content_type = strip (hd (split (CHR '';'') (lower content_type)))
      in case map_of extension_map content_type of
           Some ext \<Rightarrow> ext
         | None \<Rightarrow> ''.bin'')"

section \<open>Configuration\<close>

text \<open>One value of the \<^verbatim>\<open>auth_credentials\<close> dictionary.\<close>

record credential =
  username :: string
  password :: string
  base_url :: string

text \<open>
  \<^verbatim>\<open>TwilioConfig\<close>. The dictionary \<^verbatim>\<open>auth_credentials\<close> is an association list in
  insertion order; assigning to a key that is present keeps its position
  (\<^const>\<open>AList.update\<close>), as a Python \<^verbatim>\<open>dict\<close> does.
\<close>

record TwilioConfig =
  host :: string
  port :: int
  log_level :: string
  twilio_account_sid :: string
  twilio_auth_token :: string
  twilio_base_url :: string
  auth_credentials :: "(string \<times> credential) list"

section \<open>ConfigReporter\<close>

definition get_server_config :: "TwilioConfig \<Rightarrow> pyval" where
  "get_server_config config = PyDict
    [(''server_name'', PyStr ''Twilio Audio Downloader MCP Server''),
     (''version'', PyStr ''0.1.0''),
     (''host'', PyStr (host config)),
     (''port'', PyInt (port config)),
     (''log_level'', PyStr (log_level config)),
     (''twilio_configured'',
        PyBool (twilio_account_sid config \<noteq> [] \<and> twilio_auth_token config \<noteq> [])),
     (''additional_auth_domains'', PyList (map PyStr (map fst (auth_credentials config)))),
     (''supported_protocols'', PyList [PyStr ''http'', PyStr ''https'']),
     (''supported_audio_formats'',
        PyList [PyStr ''wav'', PyStr ''mp3'', PyStr ''m4a'', PyStr ''aac'', PyStr ''ogg'',
                PyStr ''flac'', PyStr ''webm'', PyStr ''3gp'', PyStr ''amr''])]"

section \<open>Library functions the module calls\<close>

text \<open>
  The module calls \<^verbatim>\<open>urllib.parse.urlparse\<close>, \<^verbatim>\<open>requests.get\<close>,
  \<^verbatim>\<open>Response.raise_for_status\<close>, \<^verbatim>\<open>Response.iter_content\<close>, \<^verbatim>\<open>base64.b64encode\<close>
  and \<^verbatim>\<open>pydantic.FileUrl\<close>. What the network answers and what the deeper validators of
  the libraries decide is an input of the model, the record \<open>externals\<close>; the rest is
  written out after the libraries' sources (CPython 3.11 \<^verbatim>\<open>urllib/parse.py\<close>,
  \<^verbatim>\<open>requests/models.py\<close>, RFC 4648).
\<close>

text \<open>
  An HTTP response as \<^verbatim>\<open>requests\<close> presents it: \<open>headers\<close> is the case-insensitive
  dictionary, keyed by the lower-cased header name; \<open>chunks\<close> is what
  \<^verbatim>\<open>iter_content(chunk_size=8192)\<close> yields, and \<open>stream_error\<close> the exception it raises
  after the last chunk, if the transfer breaks.
\<close>

record Response =
  status_code :: int
  reason :: string
  response_url :: string
  headers :: "string \<rightharpoonup> string"
  chunks :: "bytes list"
  stream_error :: "exn option"

text \<open>
  \<^item> \<open>check_bracketed_host\<close> is \<^verbatim>\<open>urllib.parse._check_bracketed_host\<close>: the message of the
    \<^verbatim>\<open>ValueError\<close> it raises on the text between the brackets of a netloc, or \<open>None\<close>
    when it returns;
  \<^item> \<open>nfkc_unsafe\<close> is the test of \<^verbatim>\<open>urllib.parse._checknetloc\<close> on a netloc that is not
    ASCII: whether its NFKC normal form brings in one of \<^verbatim>\<open>/?#@:\<close>;
  \<^item> \<open>requests_get url auth\<close> is \<^verbatim>\<open>requests.get(url, auth=auth, stream=True, timeout=30)\<close>:
    the exception raised or the response;
  \<^item> \<open>FileUrl s\<close> is \<^verbatim>\<open>pydantic.FileUrl(s)\<close>: the validation error or the validated URL.
\<close>

record externals =
  check_bracketed_host :: "string \<Rightarrow> string option"
  nfkc_unsafe :: "string \<Rightarrow> bool"
  requests_get :: "string \<Rightarrow> (string \<times> string) option \<Rightarrow> exn + Response"
  FileUrl :: "string \<Rightarrow> exn + string"

subsection \<open>urllib.parse\<close>

record ParseResult =
  scheme :: string
  netloc :: string
  path :: string
  params :: string
  query :: string
  fragment :: string

definition uses_params :: "string list" where
  "uses_params = [[], ''ftp'', ''hdl'', ''prospero'', ''http'', ''imap'',
                  ''https'', ''shttp'', ''rtsp'', ''rtsps'', ''rtspu'', ''sip'',
                  ''sips'', ''mms'', ''sftp'', ''tel'']"

definition scheme_chars :: "char \<Rightarrow> bool" where
  "scheme_chars c = (is_lower c \<or> is_upper c \<or> is_digit c \<or> c \<in> set ''+-.'')"

definition is_ascii :: "string \<Rightarrow> bool" where
  "is_ascii s = list_all (\<lambda>c. (of_char c :: nat) < 128) s"

text \<open>\<^verbatim>\<open>_splitnetloc(url, 2)\<close>: the netloc ends at the first of \<^verbatim>\<open>/ ? #\<close>.\<close>

definition splitnetloc :: "string \<Rightarrow> string \<times> string" where
  "splitnetloc url =
     (let rest = drop 2 url
      in (takeWhile (\<lambda>c. c \<notin> set ''/?#'') rest, dropWhile (\<lambda>c. c \<notin> set ''/?#'') rest))"

text \<open>The end of \<^verbatim>\<open>urlsplit\<close>: fragment, then query, then \<^verbatim>\<open>_checknetloc\<close>.\<close>

definition urlsplit_rest ::
  "externals \<Rightarrow> string \<Rightarrow> string \<Rightarrow> string \<Rightarrow> exn + (string \<times> string \<times> string \<times> string \<times> string)"
where
  "urlsplit_rest w sch nl url =
     (let (url, frag) = (if CHR ''#'' \<in> set url then split1 (CHR ''#'') url else (url, []));
          (url, qry) = (if CHR ''?'' \<in> set url then split1 (CHR ''?'') url else (url, []))
      in if nl \<noteq> [] \<and> \<not> is_ascii nl \<and> nfkc_unsafe w nl
         then Inl (ValueError (''netloc '' @ [CHR 0x27] @ nl @ [CHR 0x27] @
                     '' contains invalid characters under NFKC normalization''))
         else Inr (sch, nl, url, qry, frag))"

definition urlsplit ::
  "externals \<Rightarrow> string \<Rightarrow> exn + (string \<times> string \<times> string \<times> string \<times> string)"
where
  "urlsplit w url =
     (let url = dropWhile (\<lambda>c. (of_char c :: nat) \<le> 32) url;
          url = filter (\<lambda>c. c \<notin> {CHR 0x09, CHR 0x0D, CHR 0x0A}) url;
          front = takeWhile (\<lambda>c. c \<noteq> CHR '':'') url;
          (sch, url) =
            (if CHR '':'' \<in> set url \<and> front \<noteq> [] \<and> (is_lower (hd url) \<or> is_upper (hd url))
                \<and> list_all scheme_chars front
             then (lower front, drop 1 (dropWhile (\<lambda>c. c \<noteq> CHR '':'') url))
             else ([], url))
      in if take 2 url = ''//'' then
           (let (nl, url) = splitnetloc url;
                lb = (CHR ''['' \<in> set nl);
                rb = (CHR '']'' \<in> set nl)
            in if lb \<noteq> rb then Inl (ValueError ''Invalid IPv6 URL'')
               else if lb \<and> rb then
                 (case check_bracketed_host w
                         (fst (split1 (CHR '']'') (snd (split1 (CHR ''['') nl)))) of
                    Some m \<Rightarrow> Inl (ValueError m)
                  | None \<Rightarrow> urlsplit_rest w sch nl url)
               else urlsplit_rest w sch nl url)
         else urlsplit_rest w sch [] url)"

text \<open>\<^verbatim>\<open>_splitparams(url)\<close>, called when \<^verbatim>\<open>';' in url\<close>.\<close>

definition splitparams :: "string \<Rightarrow> string \<times> string" where
  "splitparams url =
     (if CHR ''/'' \<in> set url then
        (let tail = last (split (CHR ''/'') url);
             front = take (length url - length tail) url
         in if CHR '';'' \<in> set tail
            then (front @ fst (split1 (CHR '';'') tail), snd (split1 (CHR '';'') tail))
            else (url, []))
      else split1 (CHR '';'') url)"

definition urlparse :: "externals \<Rightarrow> string \<Rightarrow> exn + ParseResult" where
  "urlparse w url =
     (case urlsplit w url of
        Inl e \<Rightarrow> Inl e
      | Inr (sch, nl, url, qry, frag) \<Rightarrow>
          (let (url, prm) = (if sch \<in> set uses_params \<and> CHR '';'' \<in> set url
                             then splitparams url else (url, []))
           in Inr \<lparr>scheme = sch, netloc = nl, path = url, params = prm,
                    query = qry, fragment = frag\<rparr>))"

subsection \<open>requests\<close>

fun str_nat :: "nat \<Rightarrow> string" where
  "str_nat n =
     (if n < 10 then [char_of (48 + n)]
      else str_nat (n div 10) @ [char_of (48 + n mod 10)])"

declare str_nat.simps [simp del]

text \<open>\<^verbatim>\<open>str(i)\<close> for an integer\<close>

definition str_int :: "int \<Rightarrow> string" where
  "str_int i = (if i < 0 then ''-'' @ str_nat (nat (- i)) else str_nat (nat i))"

text \<open>
  \<^verbatim>\<open>response.raise_for_status()\<close>: the \<^verbatim>\<open>HTTPError\<close> (a \<^verbatim>\<open>RequestException\<close>) it raises,
  or \<open>None\<close> when it returns.
\<close>

definition raise_for_status :: "Response \<Rightarrow> exn option" where
  "raise_for_status r =
     (let http_error_msg =
        (if 400 \<le> status_code r \<and> status_code r < 500 then
           str_int (status_code r) @ '' Client Error: '' @ reason r @ '' for url: '' @ response_url r
         else if 500 \<le> status_code r \<and> status_code r < 600 then
           str_int (status_code r) @ '' Server Error: '' @ reason r @ '' for url: '' @ response_url r
         else [])
      in if http_error_msg \<noteq> [] then Some (RequestException http_error_msg) else None)"

subsection \<open>base64\<close>

definition b64_alphabet :: string where
  "b64_alphabet = ''ABCDEFGHIJKLMNOPQRSTUVWXYZabcdefghijklmnopqrstuvwxyz0123456789+/''"

definition b64_char :: "nat \<Rightarrow> char" where
  "b64_char n = b64_alphabet ! (n mod 64)"

fun b64encode :: "bytes \<Rightarrow> string" where
  "b64encode (a # b # c # rest) =
     (let n = unat a * 65536 + unat b * 256 + unat c
      in [b64_char (n div 262144), b64_char (n div 4096), b64_char (n div 64), b64_char n])
     @ b64encode rest"
| "b64encode [a, b] =
     (let n = unat a * 65536 + unat b * 256
      in [b64_char (n div 262144), b64_char (n div 4096), b64_char (n div 64), CHR ''=''])"
| "b64encode [a] =
     (let n = unat a * 65536
      in [b64_char (n div 262144), b64_char (n div 4096), CHR ''='', CHR ''=''])"
| "b64encode [] = []"

section \<open>CredentialRouter\<close>

text \<open>
  The body of the loop of \<^verbatim>\<open>TwilioConfig._load_auth_from_env\<close> for one entry of
  \<^verbatim>\<open>os.environ\<close>, on the dictionary \<^verbatim>\<open>self.auth_credentials\<close>. A \<^verbatim>\<open>ValueError\<close> of
  \<^verbatim>\<open>urlparse\<close> is not caught there.
\<close>

definition load_entry ::
  "externals \<Rightarrow> (string \<times> credential) list \<Rightarrow> string \<times> string \<Rightarrow> exn + (string \<times> credential) list"
where
  "load_entry w creds kv =
     (case kv of (key, val) \<Rightarrow>
        if startswith key ''AUTH_'' then
          if CHR ''|'' \<in> set val then
            (let (base_url_part, auth_part) = split1 (CHR ''|'') val
             in if CHR '':'' \<in> set auth_part then
                  (let (user, pass) = split1 (CHR '':'') auth_part
                   in case urlparse w base_url_part of
                        Inl e \<Rightarrow> Inl e
                      | Inr parsed_base \<Rightarrow>
                          if netloc parsed_base \<noteq> [] then
                            Inr (AList.update (lower (netloc parsed_base))
                                   \<lparr>username = user, password = pass, base_url = base_url_part\<rparr>
                                   creds)
                          else Inr creds)
                else Inr creds)
          else Inr creds
        else Inr creds)"

fun load_entries ::
  "externals \<Rightarrow> (string \<times> credential) list \<Rightarrow> (string \<times> string) list \<Rightarrow> exn + (string \<times> credential) list"
where
  "load_entries w creds [] = Inr creds"
| "load_entries w creds (kv # environ) =
     (case load_entry w creds kv of
        Inl e \<Rightarrow> Inl e
      | Inr creds' \<Rightarrow> load_entries w creds' environ)"

text \<open>
  \<^verbatim>\<open>TwilioConfig._load_auth_from_env\<close>: \<open>self\<close> is the configuration as the settings
  loader left it, \<open>environ\<close> the entries of \<^verbatim>\<open>os.environ\<close> in iteration order.
\<close>

definition load_auth_from_env ::
  "externals \<Rightarrow> TwilioConfig \<Rightarrow> (string \<times> string) list \<Rightarrow> exn + TwilioConfig"
where
  "load_auth_from_env w self environ =
     (case load_entries w (auth_credentials self) environ of
        Inl e \<Rightarrow> Inl e
      | Inr creds \<Rightarrow> Inr (self\<lparr>auth_credentials := creds\<rparr>))"

definition get_auth_for_url ::
  "externals \<Rightarrow> TwilioConfig \<Rightarrow> string \<Rightarrow> exn + (string \<times> string) option"
where
  "get_auth_for_url w config url =
     (case urlparse w url of
        Inl e \<Rightarrow> Inl e
      | Inr parsed \<Rightarrow>
          (let nl = lower (netloc parsed)
           in if str_in ''twilio.com'' nl \<and> twilio_account_sid config \<noteq> []
                   \<and> twilio_auth_token config \<noteq> []
              then Inr (Some (twilio_account_sid config, twilio_auth_token config))
              else (case map_of (auth_credentials config) nl of
                      Some cred \<Rightarrow> Inr (Some (username cred, password cred))
                    | None \<Rightarrow> Inr None)))"

section \<open>AudioFetcher\<close>

text \<open>
  \<^verbatim>\<open>AudioDownloadResponse(...).dict()\<close>, the six fields in declaration order:
  \<^verbatim>\<open>success\<close>, \<^verbatim>\<open>data\<close>, \<^verbatim>\<open>filename\<close>, \<^verbatim>\<open>content_type\<close>, \<^verbatim>\<open>size_bytes\<close>,
  \<^verbatim>\<open>error_message\<close>.
\<close>

definition AudioDownloadResponse_dict ::
  "bool \<Rightarrow> string option \<Rightarrow> string \<Rightarrow> string \<Rightarrow> int \<Rightarrow> string \<Rightarrow> pyval"
where
  "AudioDownloadResponse_dict ok dat fname ctype size_bytes error_message = PyDict
     [(''success'', PyBool ok),
      (''data'', (case dat of None \<Rightarrow> PyNone | Some d \<Rightarrow> PyStr d)),
      (''filename'', PyStr fname),
      (''content_type'', PyStr ctype),
      (''size_bytes'', PyInt size_bytes),
      (''error_message'', PyStr error_message)]"

text \<open>
  \<^verbatim>\<open>AudioDownloadResponse(success=False, error_message=error_msg).dict()\<close>: the other
  fields take the defaults of the class.
\<close>

definition failure_response :: "string \<Rightarrow> pyval" where
  "failure_response error_msg = AudioDownloadResponse_dict False None [] [] 0 error_msg"

text \<open>
  \<^verbatim>\<open>EmbeddedResource(type="resource", resource=BlobResourceContents(uri=..., blob=...,
  mimeType=...)).dict()\<close>, with the fields the call sets; fields of the library's classes
  that default to \<^verbatim>\<open>None\<close> are left out.
\<close>

definition EmbeddedResource_dict :: "string \<Rightarrow> string \<Rightarrow> string \<Rightarrow> pyval" where
  "EmbeddedResource_dict uri blob mimeType = PyDict
     [(''type'', PyStr ''resource''),
      (''resource'', PyDict
         [(''uri'', PyStr uri),
          (''mimeType'', PyStr mimeType),
          (''blob'', PyStr blob)])]"

text \<open>
  The loop over \<^verbatim>\<open>response.iter_content(chunk_size=8192)\<close>, on the pair
  \<^verbatim>\<open>(audio_data, bytes_downloaded)\<close>.
\<close>

fun read_chunks :: "bytes list \<Rightarrow> bytes \<times> nat \<Rightarrow> bytes \<times> nat" where
  "read_chunks [] acc = acc"
| "read_chunks (chunk # rest) (audio_data, bytes_downloaded) =
     read_chunks rest
       (if chunk \<noteq> [] then (audio_data @ chunk, bytes_downloaded + length chunk)
        else (audio_data, bytes_downloaded))"

definition read_body :: "Response \<Rightarrow> exn + (bytes \<times> nat)" where
  "read_body response =
     (let acc = read_chunks (chunks response) ([], 0)
      in case stream_error response of Some e \<Rightarrow> Inl e | None \<Rightarrow> Inr acc)"

text \<open>
  The \<^verbatim>\<open>try\<close> block of \<^verbatim>\<open>download_twilio_audio\<close> from \<^verbatim>\<open>response.raise_for_status()\<close>
  on: \<open>Inl\<close> is an exception that reaches the handlers, \<open>Inr\<close> the value returned.
\<close>

definition process_response :: "externals \<Rightarrow> ParseResult \<Rightarrow> Response \<Rightarrow> exn + pyval" where
  "process_response w parsed_url response =
     (case raise_for_status response of
        Some e \<Rightarrow> Inl e
      | None \<Rightarrow>
          (let ctype = (case headers response ''content-type'' of
                          Some v \<Rightarrow> v | None \<Rightarrow> ''application/octet-stream'');
               file_extension = get_file_extension_from_content_type ctype;
               fname = ''twilio_audio_'' @ last (split (CHR ''/'') (path parsed_url)) @ file_extension
           in case read_body response of
                Inl e \<Rightarrow> Inl e
              | Inr (audio_data, bytes_downloaded) \<Rightarrow>
                  if length audio_data = 0 then
                    Inr (failure_response ''Downloaded file is empty'')
                  else
                    (let encoded_data = b64encode audio_data
                     in case FileUrl w (''file://'' @ fname) of
                          Inl e \<Rightarrow> Inl e
                        | Inr uri \<Rightarrow> Inr (EmbeddedResource_dict uri encoded_data ctype))))"

text \<open>The two handlers at the end of \<^verbatim>\<open>download_twilio_audio\<close>.\<close>

definition handle_exception :: "string \<Rightarrow> exn \<Rightarrow> pyval" where
  "handle_exception url e =
     (case e of
        RequestException m \<Rightarrow> failure_response (''HTTP request failed for '' @ url @ '': '' @ m)
      | _ \<Rightarrow> failure_response (''Unexpected error downloading audio from '' @ url @ '': '' @ exn_str e))"

text \<open>
  \<^verbatim>\<open>download_twilio_audio(url)\<close>. The result is the dictionary returned and the list of
  HTTP requests issued, each as the pair of the URL and the credentials sent.
\<close>

definition download_twilio_audio ::
  "externals \<Rightarrow> TwilioConfig \<Rightarrow> string \<Rightarrow> pyval \<times> (string \<times> (string \<times> string) option) list"
where
  "download_twilio_audio w config url =
     (if \<not> (startswith url ''http://'' \<or> startswith url ''https://'') then
        (failure_response ''Only HTTP and HTTPS URLs are supported'', [])
      else
        (case urlparse w url of
           Inl e \<Rightarrow> (failure_response (''Failed to parse URL '' @ url @ '': '' @ exn_str e), [])
         | Inr parsed_url \<Rightarrow>
             if netloc parsed_url = [] then
               (failure_response (''Invalid URL format: '' @ url), [])
             else
               (case get_auth_for_url w config url of
                  Inl e \<Rightarrow> (handle_exception url e, [])
                | Inr auth \<Rightarrow>
                    (case requests_get w url auth of
                       Inl e \<Rightarrow> (handle_exception url e, [(url, auth)])
                     | Inr response \<Rightarrow>
                         (case process_response w parsed_url response of
                            Inl e \<Rightarrow> (handle_exception url e, [(url, auth)])
                          | Inr result \<Rightarrow> (result, [(url, auth)]))))))"

section \<open>Sample inputs\<close>

text \<open>
  Concrete inputs for the instances below: a response with a given status, reason and
  body, an environment that answers every request with one response and accepts every
  file URL, and a configuration with both Twilio fields set and one table entry.
\<close>

definition sample_response :: "int \<Rightarrow> string \<Rightarrow> bytes list \<Rightarrow> Response" where
  "sample_response status rsn body =
     \<lparr>status_code = status, reason = rsn, response_url = ''https://example.com/audio/a1'',
      headers = [''content-type'' \<mapsto> ''audio/wav''], chunks = body, stream_error = None\<rparr>"

definition sample_externals :: "Response \<Rightarrow> externals" where
  "sample_externals r =
     \<lparr>check_bracketed_host = (\<lambda>h. None), nfkc_unsafe = (\<lambda>n. False),
      requests_get = (\<lambda>url auth. Inr r), FileUrl = (\<lambda>s. Inr s)\<rparr>"

definition sample_config :: TwilioConfig where
  "sample_config =
     \<lparr>host = ''localhost'', port = 8080, log_level = ''INFO'',
      twilio_account_sid = ''AC0123'', twilio_auth_token = ''token-one'',
      twilio_base_url = ''https://api.twilio.com'',
      auth_credentials =
        [(''sub.twilio.com'',
          \<lparr>username = ''carol'', password = ''table-secret'', base_url = ''https://sub.twilio.com''\<rparr>)]\<rparr>"

section \<open>Facts about the string operations\<close>

lemma split_not_Nil: "split c s \<noteq> []"
  by (induction s) (simp_all add: Let_def)

lemma dict_get_PyDict [simp]: "dict_get (PyDict kvs) k = map_of kvs k"
  by (simp add: dict_get_def)

lemma lower_append: "lower (a @ b) = lower a @ lower b"
  by (simp add: lower_def)

lemma hd_split_append:
  "c \<notin> set a \<Longrightarrow> hd (split c (a @ c # b)) = a"
  by (induction a) (auto simp add: Let_def)

lemma hd_split_notin:
  "c \<notin> set a \<Longrightarrow> hd (split c a) = a"
  by (induction a) (auto simp add: Let_def)

lemma lower_char_upper: "is_upper x \<Longrightarrow> (of_char (lower_char x) :: nat) = of_char x + 32"
  by (simp add: lower_char_def is_upper_def)

lemma lower_char_semicolon: "lower_char x = CHR '';'' \<longleftrightarrow> x = CHR '';''"
proof (cases "is_upper x")
  case True
  then have "(of_char (lower_char x) :: nat) \<noteq> of_char (CHR '';'')"
    by (simp add: lower_char_upper) (simp add: is_upper_def)
  moreover from True have "x \<noteq> CHR '';''"
    by (auto simp: is_upper_def)
  ultimately show ?thesis by auto
next
  case False
  then show ?thesis by (simp add: lower_char_def)
qed

lemma semicolon_lower: "CHR '';'' \<in> set (lower s) \<longleftrightarrow> CHR '';'' \<in> set s"
proof (induction s)
  case Nil
  then show ?case by (simp add: lower_def)
next
  case (Cons a s)
  have "CHR '';'' = lower_char a \<longleftrightarrow> CHR '';'' = a"
    using lower_char_semicolon [of a] by auto
  with Cons show ?case by (simp add: lower_def)
qed

lemma is_space_lower: "is_space c \<Longrightarrow> lower_char c = c"
  by (auto simp: is_space_def lower_char_def is_upper_def Let_def)

lemma spaces_lower: "list_all is_space ws \<Longrightarrow> lower ws = ws"
  by (induction ws) (simp_all add: lower_def is_space_lower)

lemma spaces_no_semicolon: "list_all is_space ws \<Longrightarrow> CHR '';'' \<notin> set ws"
  by (induction ws) (auto simp: is_space_def Let_def)

lemma strip_spaces:
  assumes "list_all is_space ws" and "list_all is_space ws'"
  shows "strip (ws @ s @ ws') = strip s"
proof -
  have a: "dropWhile is_space (ws @ s @ ws') = dropWhile is_space (s @ ws')"
    using assms(1) by (simp add: list_all_iff)
  have b: "dropWhile is_space (rev (dropWhile is_space (s @ ws'))) = dropWhile is_space (rev (dropWhile is_space s))"
  proof (cases "list_all is_space s")
    case True
    have e1: "dropWhile is_space (s @ ws') = []"
      unfolding dropWhile_eq_Nil_conv using True assms(2) by (auto simp: list_all_iff)
    have e2: "dropWhile is_space s = []"
      unfolding dropWhile_eq_Nil_conv using True by (auto simp: list_all_iff)
    show ?thesis unfolding e1 e2 ..
  next
    case False
    then have "dropWhile is_space (s @ ws') = dropWhile is_space s @ ws'"
      by (auto simp: list_all_iff dropWhile_append1)
    moreover have "dropWhile is_space (rev ws' @ rev (dropWhile is_space s))
        = dropWhile is_space (rev (dropWhile is_space s))"
      by (rule dropWhile_append2) (use assms(2) in \<open>auto simp: list_all_iff\<close>)
    ultimately show ?thesis by simp
  qed
  show ?thesis unfolding strip_def a b ..
qed

lemma ext_examples:
  "get_file_extension_from_content_type ''audio/wav; codec=1'' = ''.wav''"
  "get_file_extension_from_content_type ''AUDIO/MP4'' = ''.m4a''"
  "get_file_extension_from_content_type ''text/plain'' = ''.bin''"
  by code_simp+

lemma ext_normalise:
  assumes "list_all is_space ws" "list_all is_space ws'" "CHR '';'' \<notin> set ct"
  shows "get_file_extension_from_content_type (ws @ ct @ ws' @ CHR '';'' # p) = get_file_extension_from_content_type ct"
    and "get_file_extension_from_content_type (ws @ ct @ ws') = get_file_extension_from_content_type ct"
proof -
  have n: "CHR '';'' \<notin> set (ws @ lower ct @ ws')"
    using assms by (simp add: spaces_no_semicolon semicolon_lower)
  have n2: "CHR '';'' \<notin> set (lower ct)" using assms by (simp add: semicolon_lower)
  have "lower (ws @ ct @ ws' @ CHR '';'' # p) = (ws @ lower ct @ ws') @ CHR '';'' # lower p"
    using assms by (simp add: lower_append spaces_lower) (simp add: lower_def lower_char_def is_upper_def)
  then have "hd (split (CHR '';'') (lower (ws @ ct @ ws' @ CHR '';'' # p))) = ws @ lower ct @ ws'"
    using n hd_split_append by metis
  then show "get_file_extension_from_content_type (ws @ ct @ ws' @ CHR '';'' # p) = get_file_extension_from_content_type ct"
    using assms n2 by (simp add: get_file_extension_from_content_type_def strip_spaces hd_split_notin)
  have "lower (ws @ ct @ ws') = ws @ lower ct @ ws'"
    using assms by (simp add: lower_append spaces_lower)
  then have "hd (split (CHR '';'') (lower (ws @ ct @ ws'))) = ws @ lower ct @ ws'"
    using n hd_split_notin by metis
  then show "get_file_extension_from_content_type (ws @ ct @ ws') = get_file_extension_from_content_type ct"
    using assms n2 by (simp add: get_file_extension_from_content_type_def strip_spaces hd_split_notin)
qed

lemma ext_case: "lower a = lower b \<Longrightarrow> get_file_extension_from_content_type a = get_file_extension_from_content_type b"
  by (simp add: get_file_extension_from_content_type_def)

lemma ext_range: "get_file_extension_from_content_type ct \<in> insert ''.bin'' (snd ` set extension_map)"
  by (auto simp: get_file_extension_from_content_type_def Let_def split: option.splits dest!: map_of_SomeD intro: rev_image_eqI)

lemma ext_unknown: "strip (hd (split (CHR '';'') (lower ct))) \<notin> fst ` set extension_map \<Longrightarrow> get_file_extension_from_content_type ct = ''.bin''"
  by (auto simp: get_file_extension_from_content_type_def Let_def map_of_eq_None_iff split: option.splits dest: map_of_SomeD intro: rev_image_eqI)

section \<open>Claims about the ContentTypeResolver\<close>

text \<open>
  C9. \<^verbatim>\<open>get_file_extension_from_content_type\<close> is a total function of the header text:
  it gives \<^verbatim>\<open>.wav\<close> for \<^verbatim>\<open>audio/wav; codec=1\<close>, \<^verbatim>\<open>.m4a\<close> for \<^verbatim>\<open>AUDIO/MP4\<close> and
  \<^verbatim>\<open>.bin\<close> for \<^verbatim>\<open>text/plain\<close>; a parameter suffix after \<^verbatim>\<open>;\<close>, white space around the
  type and the case of the letters do not change the result; the result is always one of
  the extensions of the table or \<^verbatim>\<open>.bin\<close>, and it is \<^verbatim>\<open>.bin\<close> whenever the normalised
  type is no key of the table.
\<close>

theorem content_type_resolver_total:
  "get_file_extension_from_content_type ''audio/wav; codec=1'' = ''.wav''
   \<and> get_file_extension_from_content_type ''AUDIO/MP4'' = ''.m4a''
   \<and> get_file_extension_from_content_type ''text/plain'' = ''.bin''
   \<and> (list_all is_space ws \<and> list_all is_space ws' \<and> CHR '';'' \<notin> set ct \<longrightarrow>
        get_file_extension_from_content_type (ws @ ct @ ws' @ CHR '';'' # p)
          = get_file_extension_from_content_type ct
        \<and> get_file_extension_from_content_type (ws @ ct @ ws')
          = get_file_extension_from_content_type ct)
   \<and> (lower a = lower b \<longrightarrow>
        get_file_extension_from_content_type a = get_file_extension_from_content_type b)
   \<and> get_file_extension_from_content_type x \<in> insert ''.bin'' (snd ` set extension_map)
   \<and> (strip (hd (split (CHR '';'') (lower u))) \<notin> fst ` set extension_map \<longrightarrow>
        get_file_extension_from_content_type u = ''.bin'')"
proof (intro conjI impI)
  assume "list_all is_space ws \<and> list_all is_space ws' \<and> CHR '';'' \<notin> set ct"
  then have h: "list_all is_space ws" "list_all is_space ws'" "CHR '';'' \<notin> set ct"
    by blast+
  show "get_file_extension_from_content_type (ws @ ct @ ws' @ CHR '';'' # p)
          = get_file_extension_from_content_type ct"
    by (rule ext_normalise(1) [OF h])
  show "get_file_extension_from_content_type (ws @ ct @ ws')
          = get_file_extension_from_content_type ct"
    by (rule ext_normalise(2) [OF h])
qed (rule ext_examples ext_case ext_range ext_unknown, assumption?)+

theorem content_type_resolver_total_witness:
  "get_file_extension_from_content_type '' Audio/Ogg ; codecs=opus''
     = get_file_extension_from_content_type ''Audio/Ogg''
   \<and> get_file_extension_from_content_type ''AUDIO/ogg''
     = get_file_extension_from_content_type ''audio/ogg''
   \<and> get_file_extension_from_content_type ''application/json; charset=utf-8'' = ''.bin''"
proof -
  have sp: "list_all is_space '' ''" by (simp add: is_space_def)
  have ns: "CHR '';'' \<notin> set ''Audio/Ogg''" by simp
  have lo: "lower ''AUDIO/ogg'' = lower ''audio/ogg''" by code_simp
  have un: "strip (hd (split (CHR '';'') (lower ''application/json; charset=utf-8'')))
              \<notin> fst ` set extension_map" by code_simp
  note t = content_type_resolver_total [of "'' ''" "'' ''" "''Audio/Ogg''" "'' codecs=opus''"
        "''AUDIO/ogg''" "''audio/ogg''" "[]" "''application/json; charset=utf-8''"]
  from t sp ns have "get_file_extension_from_content_type ('' '' @ ''Audio/Ogg'' @ '' '' @ CHR '';'' # '' codecs=opus'')
      = get_file_extension_from_content_type ''Audio/Ogg''" by blast
  moreover from t lo have "get_file_extension_from_content_type ''AUDIO/ogg''
     = get_file_extension_from_content_type ''audio/ogg''" by blast
  moreover from t un have "get_file_extension_from_content_type ''application/json; charset=utf-8'' = ''.bin''"
    by blast
  ultimately show ?thesis by simp
qed

section \<open>Claims about the tables\<close>

text \<open>
  C4, as the specification states it, fails: the table of
  \<^verbatim>\<open>get_file_extension_from_content_type\<close> does not have 8 keys and 7 extensions, and
  \<^verbatim>\<open>supported_audio_formats\<close> is not a list of 8 extensions.
\<close>

theorem extension_table_size_counterexample:
  "\<not> (length extension_map = 8 \<and> card (snd ` set extension_map) = 7
      \<and> dict_get (get_server_config
            \<lparr>host = ''localhost'', port = 8080, log_level = ''INFO'', twilio_account_sid = [],
             twilio_auth_token = [], twilio_base_url = ''https://api.twilio.com'',
             auth_credentials = []\<rparr>) ''supported_audio_formats''
          = Some (PyList (map PyStr
              [''wav'', ''mp3'', ''m4a'', ''aac'', ''ogg'', ''flac'', ''webm'', ''3gp''])))"
proof -
  have "length extension_map = 13"
    by (simp add: extension_map_def)
  then show ?thesis by simp
qed

text \<open>
  C4, amended. The table of \<^verbatim>\<open>get_file_extension_from_content_type\<close> has 13 distinct
  MIME types and 9 distinct extensions; \<^verbatim>\<open>audio/mp4\<close> and \<^verbatim>\<open>audio/m4a\<close> both give
  \<^verbatim>\<open>.m4a\<close>, and \<^verbatim>\<open>audio/wav\<close>, \<^verbatim>\<open>audio/x-wav\<close> and \<^verbatim>\<open>audio/wave\<close> all give
  \<^verbatim>\<open>.wav\<close>; \<^verbatim>\<open>supported_audio_formats\<close> of \<^verbatim>\<open>get_server_config\<close> is, for every
  configuration, the same list of 9 extensions, the extensions of the table without the dot.
\<close>

theorem extension_table_contents:
  "length extension_map = 13
   \<and> distinct (map fst extension_map)
   \<and> card (snd ` set extension_map) = 9
   \<and> map_of extension_map ''audio/mp4'' = Some ''.m4a''
   \<and> map_of extension_map ''audio/m4a'' = Some ''.m4a''
   \<and> map_of extension_map ''audio/wav'' = Some ''.wav''
   \<and> map_of extension_map ''audio/x-wav'' = Some ''.wav''
   \<and> map_of extension_map ''audio/wave'' = Some ''.wav''
   \<and> dict_get (get_server_config config) ''supported_audio_formats''
        = Some (PyList (map PyStr
            [''wav'', ''mp3'', ''m4a'', ''aac'', ''ogg'', ''flac'', ''webm'', ''3gp'', ''amr'']))
   \<and> remdups (map snd extension_map)
        = map (\<lambda>f. CHR ''.'' # f)
            [''wav'', ''mp3'', ''m4a'', ''aac'', ''ogg'', ''flac'', ''webm'', ''3gp'', ''amr'']"
proof (intro conjI)
  show "length extension_map = 13"
    by (simp add: extension_map_def)
  show "distinct (map fst extension_map)"
    by (simp add: extension_map_def)
  show "card (snd ` set extension_map) = 9"
    unfolding extension_map_def by (simp add: card_insert_if)
  show "dict_get (get_server_config config) ''supported_audio_formats''
        = Some (PyList (map PyStr
            [''wav'', ''mp3'', ''m4a'', ''aac'', ''ogg'', ''flac'', ''webm'', ''3gp'', ''amr'']))"
    by (simp add: get_server_config_def)
  show "remdups (map snd extension_map)
        = map (\<lambda>f. CHR ''.'' # f)
            [''wav'', ''mp3'', ''m4a'', ''aac'', ''ogg'', ''flac'', ''webm'', ''3gp'', ''amr'']"
    by (simp add: extension_map_def)
qed (simp_all add: extension_map_def)

section \<open>Claims about the ConfigReporter\<close>

text \<open>
  C3. The dictionary \<^verbatim>\<open>get_server_config\<close> returns depends on the configuration only
  through \<^verbatim>\<open>host\<close>, \<^verbatim>\<open>port\<close>, \<^verbatim>\<open>log_level\<close>, the truth value of "account identifier
  and token are both non-empty", and the keys of \<^verbatim>\<open>auth_credentials\<close>: two configurations
  that agree on these give the same dictionary, whatever the identifier, the token, the
  user names, the passwords and the base URLs are.
\<close>

theorem get_server_config_hides_secrets:
  assumes "host c1 = host c2" and "port c1 = port c2" and "log_level c1 = log_level c2"
    and "(twilio_account_sid c1 \<noteq> [] \<and> twilio_auth_token c1 \<noteq> [])
         = (twilio_account_sid c2 \<noteq> [] \<and> twilio_auth_token c2 \<noteq> [])"
    and "map fst (auth_credentials c1) = map fst (auth_credentials c2)"
  shows "get_server_config c1 = get_server_config c2"
  using assms by (simp add: get_server_config_def)

theorem get_server_config_hides_secrets_witness:
  "get_server_config
     \<lparr>host = ''localhost'', port = 8080, log_level = ''INFO'',
      twilio_account_sid = ''AC0123'', twilio_auth_token = ''token-one'',
      twilio_base_url = ''https://api.twilio.com'',
      auth_credentials =
        [(''example.com'', \<lparr>username = ''bob'', password = ''secret'', base_url = ''https://example.com''\<rparr>)]\<rparr>
   = get_server_config
     \<lparr>host = ''localhost'', port = 8080, log_level = ''INFO'',
      twilio_account_sid = ''AC9999'', twilio_auth_token = ''token-two'',
      twilio_base_url = ''https://other.example'',
      auth_credentials =
        [(''example.com'', \<lparr>username = ''eve'', password = ''hunter2'', base_url = ''http://example.com''\<rparr>)]\<rparr>"
  by (rule get_server_config_hides_secrets) simp_all

lemma urlparse_example_file:
  "urlparse w ''https://example.com/file'' =
     Inr \<lparr>scheme = ''https'', netloc = ''example.com'', path = ''/file'', params = [],
          query = [], fragment = []\<rparr>"
  by (simp add: urlparse_def urlsplit_def urlsplit_rest_def splitnetloc_def split1_def
      is_lower_def is_upper_def is_digit_def scheme_chars_def lower_def lower_char_def
      is_ascii_def uses_params_def Let_def)

section \<open>Claims about the CredentialRouter\<close>

text \<open>
  C2. When \<^verbatim>\<open>urlparse\<close> accepts the URL, the lower-cased netloc contains \<^verbatim>\<open>twilio.com\<close> and
  the account identifier and the token are both non-empty, \<^verbatim>\<open>get_auth_for_url\<close> returns that
  pair, for every content of \<^verbatim>\<open>auth_credentials\<close>: the table is not consulted.
\<close>

theorem twilio_substring_rule_wins:
  assumes "urlparse w url = Inr parsed"
    and "str_in ''twilio.com'' (lower (netloc parsed))"
    and "twilio_account_sid config \<noteq> []" and "twilio_auth_token config \<noteq> []"
  shows "get_auth_for_url w config url
           = Inr (Some (twilio_account_sid config, twilio_auth_token config))"
  using assms by (simp add: get_auth_for_url_def)

theorem twilio_substring_rule_wins_witness:
  "map_of (auth_credentials sample_config) ''sub.twilio.com''
     = Some \<lparr>username = ''carol'', password = ''table-secret'', base_url = ''https://sub.twilio.com''\<rparr>
   \<and> get_auth_for_url (sample_externals (sample_response 200 ''OK'' [[1, 2, 3]])) sample_config ''https://sub.twilio.com/x''
     = Inr (Some (''AC0123'', ''token-one''))"
proof -
  have p: "urlparse (sample_externals (sample_response 200 ''OK'' [[1, 2, 3]])) ''https://sub.twilio.com/x'' =
     Inr \<lparr>scheme = ''https'', netloc = ''sub.twilio.com'', path = ''/x'', params = [],
          query = [], fragment = []\<rparr>"
    by code_simp
  have s: "str_in ''twilio.com'' (lower (netloc \<lparr>scheme = ''https'', netloc = ''sub.twilio.com'',
             path = ''/x'', params = [], query = [], fragment = []\<rparr>))"
    by code_simp
  have "get_auth_for_url (sample_externals (sample_response 200 ''OK'' [[1, 2, 3]])) sample_config ''https://sub.twilio.com/x''
     = Inr (Some (twilio_account_sid sample_config, twilio_auth_token sample_config))"
    by (rule twilio_substring_rule_wins [OF p s]) (simp_all add: sample_config_def)
  then show ?thesis by (simp add: sample_config_def)
qed

section \<open>Claims about the AudioFetcher\<close>

text \<open>
  C5. For every URL that starts with neither \<^verbatim>\<open>http://\<close> nor \<^verbatim>\<open>https://\<close> (the test is on
  the literal text, so \<^verbatim>\<open>HTTP://\<close> does not pass), \<^verbatim>\<open>download_twilio_audio\<close> returns the
  failure dictionary with the message \<^verbatim>\<open>Only HTTP and HTTPS URLs are supported\<close> and
  issues no HTTP request.
\<close>

theorem unsupported_scheme_fails_before_request:
  assumes "\<not> startswith url ''http://''" and "\<not> startswith url ''https://''"
  shows "download_twilio_audio w config url
           = (failure_response ''Only HTTP and HTTPS URLs are supported'', [])"
  using assms by (simp add: download_twilio_audio_def)

theorem unsupported_scheme_fails_before_request_witness:
  "download_twilio_audio (sample_externals (sample_response 200 ''OK'' [[1, 2, 3]])) sample_config
     ''HTTP://api.twilio.com/recordings/RE1''
   = (PyDict [(''success'', PyBool False), (''data'', PyNone), (''filename'', PyStr []),
              (''content_type'', PyStr []), (''size_bytes'', PyInt 0),
              (''error_message'', PyStr ''Only HTTP and HTTPS URLs are supported'')], [])"
proof -
  have a: "\<not> startswith ''HTTP://api.twilio.com/recordings/RE1'' ''http://''"
    by (simp add: startswith_def)
  have b: "\<not> startswith ''HTTP://api.twilio.com/recordings/RE1'' ''https://''"
    by (simp add: startswith_def)
  show ?thesis
    using unsupported_scheme_fails_before_request [OF a b]
    by (simp add: failure_response_def AudioDownloadResponse_dict_def)
qed

lemma read_chunks_concat:
  "read_chunks cs (a, n) = (a @ concat cs, n + length (concat cs))"
  by (induction cs arbitrary: a n) simp_all

lemma read_body_ok:
  "stream_error r = None \<Longrightarrow> read_body r = Inr (concat (chunks r), length (concat (chunks r)))"
  by (simp add: read_body_def read_chunks_concat)

lemma raise_for_status_None:
  "status_code r < 400 \<or> 600 \<le> status_code r \<Longrightarrow> raise_for_status r = None"
  by (auto simp: raise_for_status_def)

lemma raise_for_status_Some:
  "400 \<le> status_code r \<Longrightarrow> status_code r < 600 \<Longrightarrow>
   raise_for_status r = Some (RequestException
     (str_int (status_code r)
      @ (if status_code r < 500 then '' Client Error: '' else '' Server Error: '')
      @ reason r @ '' for url: '' @ response_url r))"
  by (simp add: raise_for_status_def)

lemma download_fetch:
  assumes "startswith url ''http://'' \<or> startswith url ''https://''"
    and "urlparse w url = Inr parsed" and "netloc parsed \<noteq> []"
    and "get_auth_for_url w config url = Inr auth"
    and "requests_get w url auth = Inr response"
  shows "download_twilio_audio w config url =
           ((case process_response w parsed response of
               Inl e \<Rightarrow> handle_exception url e
             | Inr result \<Rightarrow> result), [(url, auth)])"
  using assms by (auto simp: download_twilio_audio_def split: sum.splits)

lemma get_auth_for_url_total:
  "urlparse w url = Inr parsed \<Longrightarrow> \<exists>auth. get_auth_for_url w config url = Inr auth"
  by (simp add: get_auth_for_url_def Let_def split: option.splits)

lemma failure_response_fields:
  "dict_get (failure_response m) ''success'' = Some (PyBool False)"
  "dict_get (failure_response m) ''data'' = Some PyNone"
  "dict_get (failure_response m) ''size_bytes'' = Some (PyInt 0)"
  "dict_get (failure_response m) ''error_message'' = Some (PyStr m)"
  by (simp_all add: failure_response_def AudioDownloadResponse_dict_def)

lemma handle_exception_failure:
  "\<exists>m. handle_exception url e = failure_response m"
  by (cases e) (auto simp: handle_exception_def)

lemma process_response_empty:
  assumes "stream_error r = None" and "concat (chunks r) = []"
    and "status_code r < 400 \<or> 600 \<le> status_code r"
  shows "process_response w parsed r = Inr (failure_response ''Downloaded file is empty'')"
  using assms by (simp add: process_response_def raise_for_status_None read_body_ok Let_def)

lemma process_response_http_error:
  assumes "400 \<le> status_code r" and "status_code r < 600"
  shows "process_response w parsed r = Inl (RequestException
     (str_int (status_code r)
      @ (if status_code r < 500 then '' Client Error: '' else '' Server Error: '')
      @ reason r @ '' for url: '' @ response_url r))"
  using assms by (simp add: process_response_def raise_for_status_Some)

lemma process_response_read:
  assumes "raise_for_status r = None" and "read_body r = Inr (body, n)" and "body \<noteq> []"
  shows "process_response w parsed r =
    (let ctype = (case headers r ''content-type'' of
                          Some v \<Rightarrow> v | None \<Rightarrow> ''application/octet-stream'')
     in case FileUrl w (''file://'' @ ''twilio_audio_'' @ last (split (CHR ''/'') (path parsed))
                          @ get_file_extension_from_content_type ctype) of
          Inl e \<Rightarrow> Inl e
        | Inr uri \<Rightarrow> Inr (EmbeddedResource_dict uri (b64encode body) ctype))"
  using assms by (simp add: process_response_def Let_def)

lemma process_response_body:
  assumes "stream_error r = None" and "concat (chunks r) \<noteq> []"
    and "status_code r < 400 \<or> 600 \<le> status_code r"
  shows "process_response w parsed r =
    (let ctype = (case headers r ''content-type'' of
                          Some v \<Rightarrow> v | None \<Rightarrow> ''application/octet-stream'')
     in case FileUrl w (''file://'' @ ''twilio_audio_'' @ last (split (CHR ''/'') (path parsed))
                          @ get_file_extension_from_content_type ctype) of
          Inl e \<Rightarrow> Inl e
        | Inr uri \<Rightarrow> Inr (EmbeddedResource_dict uri (b64encode (concat (chunks r))) ctype))"
  by (rule process_response_read [OF raise_for_status_None [OF assms(3)] read_body_ok [OF assms(1)] assms(2)])

text \<open>
  C7. A response that \<^verbatim>\<open>raise_for_status\<close> lets pass (status 200, and any status below
  400 or from 600 on) whose body buffers to zero bytes gives the failure dictionary with the
  message \<^verbatim>\<open>Downloaded file is empty\<close>; and whatever the status is, a response with an
  empty body gives a dictionary whose \<^verbatim>\<open>success\<close> is false.
\<close>

theorem empty_body_is_failure:
  assumes "startswith url ''http://'' \<or> startswith url ''https://''"
    and "urlparse w url = Inr parsed" and "netloc parsed \<noteq> []"
    and "get_auth_for_url w config url = Inr auth"
    and "requests_get w url auth = Inr response"
    and "stream_error response = None" and "concat (chunks response) = []"
  shows "(status_code response = 200 \<or> status_code response < 400 \<or> 600 \<le> status_code response
            \<longrightarrow> download_twilio_audio w config url
                  = (failure_response ''Downloaded file is empty'', [(url, auth)]))
         \<and> dict_get (fst (download_twilio_audio w config url)) ''success'' = Some (PyBool False)
         \<and> dict_get (fst (download_twilio_audio w config url)) ''data'' = Some PyNone"
proof -
  note d = download_fetch [OF assms(1-5)]
  show ?thesis
  proof (cases "status_code response < 400 \<or> 600 \<le> status_code response")
    case True
    then show ?thesis
      by (simp add: d process_response_empty [OF assms(6,7)] failure_response_fields)
  next
    case False
    then have "400 \<le> status_code response" "status_code response < 600" by auto
    from process_response_http_error [OF this] False
    show ?thesis
      by (simp add: d handle_exception_def failure_response_fields)
  qed
qed


lemma sample_parse:
  "urlparse (sample_externals r) ''https://example.com/audio/a1'' =
     Inr \<lparr>scheme = ''https'', netloc = ''example.com'', path = ''/audio/a1'', params = [],
          query = [], fragment = []\<rparr>"
  by (simp add: urlparse_def urlsplit_def urlsplit_rest_def splitnetloc_def split1_def
      is_lower_def is_upper_def is_digit_def scheme_chars_def lower_def lower_char_def
      is_ascii_def uses_params_def Let_def)

lemma sample_auth:
  "get_auth_for_url (sample_externals r) sample_config ''https://example.com/audio/a1'' = Inr None"
  by (simp add: get_auth_for_url_def sample_parse sample_config_def str_in_def lower_def
      lower_char_def is_upper_def Let_def sublist_code)

lemma sample_scheme:
  "startswith ''https://example.com/audio/a1'' ''http://''
   \<or> startswith ''https://example.com/audio/a1'' ''https://''"
  by (simp add: startswith_def)

lemma sample_get: "requests_get (sample_externals r) url auth = Inr r"
  by (simp add: sample_externals_def)

theorem empty_body_is_failure_witness:
  "download_twilio_audio (sample_externals (sample_response 200 ''OK'' [[], []])) sample_config
     ''https://example.com/audio/a1''
   = (PyDict [(''success'', PyBool False), (''data'', PyNone), (''filename'', PyStr []),
              (''content_type'', PyStr []), (''size_bytes'', PyInt 0),
              (''error_message'', PyStr ''Downloaded file is empty'')],
      [(''https://example.com/audio/a1'', None)])"
proof -
  have n: "netloc \<lparr>scheme = ''https'', netloc = ''example.com'', path = ''/audio/a1'',
             params = [], query = [], fragment = []\<rparr> \<noteq> []" by simp
  have e: "stream_error (sample_response 200 ''OK'' [[], []]) = None"
    by (simp add: sample_response_def)
  have c: "concat (chunks (sample_response 200 ''OK'' [[], []])) = []"
    by (simp add: sample_response_def)
  have s: "status_code (sample_response 200 ''OK'' [[], []]) = 200"
    by (simp add: sample_response_def)
  from empty_body_is_failure [OF sample_scheme sample_parse n sample_auth sample_get e c] s
  show ?thesis
    by (simp add: failure_response_def AudioDownloadResponse_dict_def)
qed

text \<open>
  C8, as the specification states it, fails: \<^verbatim>\<open>raise_for_status\<close> raises for the statuses
  400 to 599 only. A response with status 600 and a body of three bytes is returned as an
  embedded resource that carries the bytes.
\<close>

theorem http_error_status_counterexample:
  "400 \<le> status_code (sample_response 600 ''Unknown'' [[1, 2, 3]])
   \<and> download_twilio_audio (sample_externals (sample_response 600 ''Unknown'' [[1, 2, 3]]))
       sample_config ''https://example.com/audio/a1''
     = (PyDict [(''type'', PyStr ''resource''),
                (''resource'', PyDict [(''uri'', PyStr ''file://twilio_audio_a1.wav''),
                                       (''mimeType'', PyStr ''audio/wav''),
                                       (''blob'', PyStr ''AQID'')])],
        [(''https://example.com/audio/a1'', None)])"
proof -
  let ?r = "sample_response 600 ''Unknown'' [[1, 2, 3]]"
  have n: "netloc \<lparr>scheme = ''https'', netloc = ''example.com'', path = ''/audio/a1'',
             params = [], query = [], fragment = []\<rparr> \<noteq> []" by simp
  have e: "stream_error ?r = None" by (simp add: sample_response_def)
  have c: "concat (chunks ?r) \<noteq> []" by (simp add: sample_response_def)
  have s: "status_code ?r < 400 \<or> 600 \<le> status_code ?r" by (simp add: sample_response_def)
  have x: "get_file_extension_from_content_type ''audio/wav'' = ''.wav''" by code_simp
  have l: "last (split (CHR ''/'') ''/audio/a1'') = ''a1''" by code_simp
  have "process_response (sample_externals ?r)
          \<lparr>scheme = ''https'', netloc = ''example.com'', path = ''/audio/a1'',
             params = [], query = [], fragment = []\<rparr> ?r
        = Inr (EmbeddedResource_dict ''file://twilio_audio_a1.wav'' ''AQID'' ''audio/wav'')"
    unfolding process_response_body [OF e c s]
    by (simp add: sample_response_def sample_externals_def x l b64_char_def b64_alphabet_def)
  then show ?thesis
    unfolding download_fetch [OF sample_scheme sample_parse n sample_auth sample_get]
    by (simp add: sample_response_def EmbeddedResource_dict_def)
qed

text \<open>
  C8, amended. For every response whose status is in 400 to 599, whatever its body,
  \<^verbatim>\<open>download_twilio_audio\<close> returns the failure dictionary whose message is
  \<^verbatim>\<open>HTTP request failed for <url>: <status> Client Error: <reason> for url: <response url>\<close>
  (\<^verbatim>\<open>Server Error\<close> from 500 on), and whose \<^verbatim>\<open>data\<close> is \<^verbatim>\<open>None\<close>: no bytes are returned.
\<close>

theorem http_error_status_is_failure:
  assumes "startswith url ''http://'' \<or> startswith url ''https://''"
    and "urlparse w url = Inr parsed" and "netloc parsed \<noteq> []"
    and "get_auth_for_url w config url = Inr auth"
    and "requests_get w url auth = Inr response"
    and "400 \<le> status_code response" and "status_code response < 600"
  shows "download_twilio_audio w config url
           = (failure_response
                (''HTTP request failed for '' @ url @ '': '' @ str_int (status_code response)
                 @ (if status_code response < 500 then '' Client Error: '' else '' Server Error: '')
                 @ reason response @ '' for url: '' @ response_url response),
              [(url, auth)])
         \<and> dict_get (fst (download_twilio_audio w config url)) ''success'' = Some (PyBool False)
         \<and> dict_get (fst (download_twilio_audio w config url)) ''data'' = Some PyNone"
  unfolding download_fetch [OF assms(1-5)] process_response_http_error [OF assms(6,7)]
  by (simp add: handle_exception_def failure_response_fields)

theorem http_error_status_is_failure_witness:
  "download_twilio_audio (sample_externals (sample_response 404 ''Not Found'' [[110, 111]]))
     sample_config ''https://example.com/audio/a1''
   = (PyDict [(''success'', PyBool False), (''data'', PyNone), (''filename'', PyStr []),
              (''content_type'', PyStr []), (''size_bytes'', PyInt 0),
              (''error_message'', PyStr (''HTTP request failed for https://example.com/audio/a1: ''
                 @ ''404 Client Error: Not Found for url: https://example.com/audio/a1''))],
      [(''https://example.com/audio/a1'', None)])"
proof -
  let ?r = "sample_response 404 ''Not Found'' [[110, 111]]"
  have n: "netloc \<lparr>scheme = ''https'', netloc = ''example.com'', path = ''/audio/a1'',
             params = [], query = [], fragment = []\<rparr> \<noteq> []" by simp
  have lo: "400 \<le> status_code ?r" by (simp add: sample_response_def)
  have hi: "status_code ?r < 600" by (simp add: sample_response_def)
  have d: "str_int 404 = ''404''" by code_simp
  from http_error_status_is_failure [OF sample_scheme sample_parse n sample_auth sample_get lo hi]
  show ?thesis
    by (simp add: sample_response_def d failure_response_def AudioDownloadResponse_dict_def)
qed

lemma EmbeddedResource_dict_fields:
  "dict_get (EmbeddedResource_dict uri blob mt) ''size_bytes'' = None"
  "dict_get (EmbeddedResource_dict uri blob mt) ''success'' = None"
  "dict_get (EmbeddedResource_dict uri blob mt) ''filename'' = None"
  "dict_get (EmbeddedResource_dict uri blob mt) ''resource''
     = Some (PyDict [(''uri'', PyStr uri), (''mimeType'', PyStr mt), (''blob'', PyStr blob)])"
  by (simp_all add: EmbeddedResource_dict_def)

text \<open>
  C1. What the code does on a fetch that succeeds (a response that \<^verbatim>\<open>raise_for_status\<close> lets
  pass, with a body that is not empty): when \<^verbatim>\<open>FileUrl\<close> accepts \<^verbatim>\<open>file://<filename>\<close> the
  result is the dictionary of an embedded resource, which holds the base64 text of the bytes,
  the MIME type and the file name inside the URI, and has no \<^verbatim>\<open>size_bytes\<close>, \<^verbatim>\<open>success\<close> or
  \<^verbatim>\<open>filename\<close> key; when \<^verbatim>\<open>FileUrl\<close> raises, the result is a failure dictionary. In neither
  case is there a \<^verbatim>\<open>size_bytes\<close> equal to the number of bytes buffered.
\<close>

theorem download_success_has_no_size:
  assumes "startswith url ''http://'' \<or> startswith url ''https://''"
    and "urlparse w url = Inr parsed" and "netloc parsed \<noteq> []"
    and "get_auth_for_url w config url = Inr auth"
    and "requests_get w url auth = Inr response"
    and "status_code response < 400"
    and "stream_error response = None" and "concat (chunks response) \<noteq> []"
    and "ctype = (case headers response ''content-type'' of
                    Some v \<Rightarrow> v | None \<Rightarrow> ''application/octet-stream'')"
    and "fname = ''twilio_audio_'' @ last (split (CHR ''/'') (path parsed))
                   @ get_file_extension_from_content_type ctype"
  shows "download_twilio_audio w config url
           = ((case FileUrl w (''file://'' @ fname) of
                 Inl e \<Rightarrow> handle_exception url e
               | Inr uri \<Rightarrow> EmbeddedResource_dict uri (b64encode (concat (chunks response))) ctype),
              [(url, auth)])
         \<and> dict_get (fst (download_twilio_audio w config url)) ''size_bytes''
             \<noteq> Some (PyInt (int (length (concat (chunks response)))))
         \<and> (FileUrl w (''file://'' @ fname) = Inr uri \<longrightarrow>
               dict_get (fst (download_twilio_audio w config url)) ''size_bytes'' = None
               \<and> dict_get (fst (download_twilio_audio w config url)) ''success'' = None)"
proof -
  have s: "status_code response < 400 \<or> 600 \<le> status_code response"
    using assms(6) by simp
  have p: "process_response w parsed response =
     (case FileUrl w (''file://'' @ fname) of
        Inl e \<Rightarrow> Inl e
      | Inr uri \<Rightarrow> Inr (EmbeddedResource_dict uri (b64encode (concat (chunks response))) ctype))"
    unfolding process_response_body [OF assms(7,8) s] assms(9,10) by (simp add: Let_def)
  have d: "download_twilio_audio w config url
           = ((case FileUrl w (''file://'' @ fname) of
                 Inl e \<Rightarrow> handle_exception url e
               | Inr uri \<Rightarrow> EmbeddedResource_dict uri (b64encode (concat (chunks response))) ctype),
              [(url, auth)])"
    unfolding download_fetch [OF assms(1-5)] p by (simp split: sum.splits)
  have len: "int (length (concat (chunks response))) \<noteq> 0"
    using assms(8) by (simp only: of_nat_eq_0_iff length_0_conv not_False_eq_True)
  show ?thesis
  proof (cases "FileUrl w (''file://'' @ fname)")
    case (Inl e)
    obtain m where "handle_exception url e = failure_response m"
      using handle_exception_failure by blast
    with Inl len show ?thesis
      unfolding d by (simp add: failure_response_fields)
  next
    case (Inr u)
    then show ?thesis
      unfolding d by (simp add: EmbeddedResource_dict_fields)
  qed
qed

theorem download_success_has_no_size_witness:
  "download_twilio_audio (sample_externals (sample_response 200 ''OK'' [[1, 2], [], [3]]))
     sample_config ''https://example.com/audio/a1''
   = (PyDict [(''type'', PyStr ''resource''),
              (''resource'', PyDict [(''uri'', PyStr ''file://twilio_audio_a1.wav''),
                                     (''mimeType'', PyStr ''audio/wav''),
                                     (''blob'', PyStr ''AQID'')])],
      [(''https://example.com/audio/a1'', None)])
   \<and> dict_get (fst (download_twilio_audio
          (sample_externals (sample_response 200 ''OK'' [[1, 2], [], [3]]))
          sample_config ''https://example.com/audio/a1'')) ''size_bytes'' = None"
proof -
  let ?r = "sample_response 200 ''OK'' [[1, 2], [], [3]]"
  let ?p = "\<lparr>scheme = ''https'', netloc = ''example.com'', path = ''/audio/a1'',
             params = [], query = [], fragment = []\<rparr>"
  have n: "netloc ?p \<noteq> []" by simp
  have e: "stream_error ?r = None" by (simp add: sample_response_def)
  have c: "concat (chunks ?r) \<noteq> []" by (simp add: sample_response_def)
  have s: "status_code ?r < 400" by (simp add: sample_response_def)
  have x: "get_file_extension_from_content_type ''audio/wav'' = ''.wav''" by code_simp
  have l: "last (split (CHR ''/'') ''/audio/a1'') = ''a1''" by code_simp
  have t: "''audio/wav'' = (case headers ?r ''content-type'' of
                    Some v \<Rightarrow> v | None \<Rightarrow> ''application/octet-stream'')"
    by (simp add: sample_response_def)
  have f: "''twilio_audio_a1.wav'' = ''twilio_audio_'' @ last (split (CHR ''/'') (path ?p))
                   @ get_file_extension_from_content_type ''audio/wav''"
    by (simp add: x l)
  have u: "FileUrl (sample_externals ?r) (''file://'' @ ''twilio_audio_a1.wav'')
             = Inr ''file://twilio_audio_a1.wav''"
    by (simp add: sample_externals_def)
  from download_success_has_no_size
         [OF sample_scheme sample_parse n sample_auth sample_get s e c t f,
          of "''file://twilio_audio_a1.wav''"] u
  show ?thesis
    by (simp add: sample_response_def EmbeddedResource_dict_def b64_char_def b64_alphabet_def)
qed

lemma split1_first: "c \<notin> set a \<Longrightarrow> split1 c (a @ c # b) = (a, b)"
  by (induction a) (auto simp: split1_def)

lemma urlparse_example_com:
  "urlparse w ''https://example.com'' =
     Inr \<lparr>scheme = ''https'', netloc = ''example.com'', path = [], params = [],
          query = [], fragment = []\<rparr>"
  by (simp add: urlparse_def urlsplit_def urlsplit_rest_def splitnetloc_def split1_def
      is_lower_def is_upper_def is_digit_def scheme_chars_def lower_def lower_char_def
      is_ascii_def uses_params_def Let_def)

lemma lower_example_com: "lower ''example.com'' = ''example.com''"
  by (simp add: lower_def lower_char_def is_upper_def)

lemma not_twilio_example_com: "\<not> str_in ''twilio.com'' ''example.com''"
  by (simp add: str_in_def sublist_code)

lemma load_entry_route:
  assumes "startswith key ''AUTH_''" and "CHR ''|'' \<notin> set b" and "CHR '':'' \<notin> set u"
    and "urlparse w b = Inr pb" and "netloc pb \<noteq> []"
  shows "load_entry w creds (key, b @ ''|'' @ u @ '':'' @ p)
           = Inr (AList.update (lower (netloc pb))
                    \<lparr>username = u, password = p, base_url = b\<rparr> creds)"
  using assms by (simp add: load_entry_def split1_first)

lemma load_entry_no_bar:
  "CHR ''|'' \<notin> set v \<Longrightarrow> load_entry w creds (key, v) = Inr creds"
  by (simp add: load_entry_def)

lemma load_entry_no_colon:
  "CHR ''|'' \<notin> set b \<Longrightarrow> CHR '':'' \<notin> set a \<Longrightarrow>
   load_entry w creds (key, b @ ''|'' @ a) = Inr creds"
  by (simp add: load_entry_def split1_first)

lemma load_entry_no_host:
  assumes "CHR ''|'' \<notin> set b" and "CHR '':'' \<notin> set u"
    and "urlparse w b = Inr pb" and "netloc pb = []"
  shows "load_entry w creds (key, b @ ''|'' @ u @ '':'' @ p) = Inr creds"
  using assms by (simp add: load_entry_def split1_first)

lemma load_entry_other_key:
  "\<not> startswith key ''AUTH_'' \<Longrightarrow> load_entry w creds (key, v) = Inr creds"
  by (simp add: load_entry_def)

lemma load_example:
  "load_auth_from_env w config
      [(''AUTH_X'', ''https://example.com|bob:secret''), (''AUTH_Y'', ''no-separator'')]
   = Inr (config\<lparr>auth_credentials :=
            AList.update ''example.com''
              \<lparr>username = ''bob'', password = ''secret'', base_url = ''https://example.com''\<rparr>
              (auth_credentials config)\<rparr>)"
proof -
  have k: "startswith ''AUTH_X'' ''AUTH_''" by (simp add: startswith_def)
  have "load_entry w (auth_credentials config) (''AUTH_X'', ''https://example.com'' @ ''|'' @ ''bob'' @ '':'' @ ''secret'')
      = Inr (AList.update (lower ''example.com'')
              \<lparr>username = ''bob'', password = ''secret'', base_url = ''https://example.com''\<rparr>
              (auth_credentials config))"
    using load_entry_route [where u = "''bob''" and p = "''secret''" and creds = "auth_credentials config",
            OF k _ _ urlparse_example_com]
    by simp
  moreover have "load_entry w creds (''AUTH_Y'', ''no-separator'') = Inr creds" for creds
    by (rule load_entry_no_bar) simp
  ultimately show ?thesis
    by (simp add: load_auth_from_env_def lower_example_com)
qed

lemma resolve_example:
  "get_auth_for_url w
     (config\<lparr>auth_credentials :=
            AList.update ''example.com''
              \<lparr>username = ''bob'', password = ''secret'', base_url = ''https://example.com''\<rparr>
              (auth_credentials config)\<rparr>) ''https://example.com/file''
   = Inr (Some (''bob'', ''secret''))"
  by (simp add: get_auth_for_url_def urlparse_example_file lower_example_com
      not_twilio_example_com update_conv')


text \<open>
  C6. For an entry of the environment whose key starts with \<^verbatim>\<open>AUTH_\<close>,
  \<^verbatim>\<open>_load_auth_from_env\<close> splits the value at the first \<^verbatim>\<open>|\<close> and the part after it at the
  first \<^verbatim>\<open>:\<close>, and stores user name, password and base URL under the lower-cased netloc
  of the base URL; a value with no \<^verbatim>\<open>|\<close>, a value with no \<^verbatim>\<open>:\<close> after the \<^verbatim>\<open>|\<close>, a base URL
  with an empty netloc, and an entry with another key leave the table as it is and raise
  nothing. With \<^verbatim>\<open>AUTH_X = "https://example.com|bob:secret"\<close> and
  \<^verbatim>\<open>AUTH_Y = "no-separator"\<close> the load returns normally, and \<^verbatim>\<open>get_auth_for_url\<close> on
  \<^verbatim>\<open>https://example.com/file\<close> then returns \<^verbatim>\<open>(bob, secret)\<close>.
\<close>

theorem load_auth_from_env_parses_entries:
  "(startswith key ''AUTH_'' \<and> CHR ''|'' \<notin> set b \<and> CHR '':'' \<notin> set u
      \<and> urlparse w b = Inr pb \<and> netloc pb \<noteq> [] \<longrightarrow>
      load_entry w creds (key, b @ ''|'' @ u @ '':'' @ p)
        = Inr (AList.update (lower (netloc pb))
                 \<lparr>username = u, password = p, base_url = b\<rparr> creds))
   \<and> (CHR ''|'' \<notin> set v \<longrightarrow> load_entry w creds (key, v) = Inr creds)
   \<and> (CHR ''|'' \<notin> set b \<and> CHR '':'' \<notin> set a \<longrightarrow>
        load_entry w creds (key, b @ ''|'' @ a) = Inr creds)
   \<and> (CHR ''|'' \<notin> set b \<and> CHR '':'' \<notin> set u \<and> urlparse w b = Inr pb \<and> netloc pb = [] \<longrightarrow>
        load_entry w creds (key, b @ ''|'' @ u @ '':'' @ p) = Inr creds)
   \<and> (\<not> startswith key ''AUTH_'' \<longrightarrow> load_entry w creds (key, v) = Inr creds)
   \<and> load_auth_from_env w config
         [(''AUTH_X'', ''https://example.com|bob:secret''), (''AUTH_Y'', ''no-separator'')]
       = Inr (config\<lparr>auth_credentials :=
                AList.update ''example.com''
                  \<lparr>username = ''bob'', password = ''secret'', base_url = ''https://example.com''\<rparr>
                  (auth_credentials config)\<rparr>)
   \<and> get_auth_for_url w
         (config\<lparr>auth_credentials :=
                AList.update ''example.com''
                  \<lparr>username = ''bob'', password = ''secret'', base_url = ''https://example.com''\<rparr>
                  (auth_credentials config)\<rparr>) ''https://example.com/file''
       = Inr (Some (''bob'', ''secret''))"
  using load_entry_route [of key b u w pb creds p] load_entry_no_bar [of v w creds key]
    load_entry_no_colon [of b a w creds key] load_entry_no_host [of b u w pb creds key p]
    load_entry_other_key [of key w creds v] load_example [of w config]
    resolve_example [of w config]
  by (intro conjI impI) (elim conjE, assumption | assumption)+


theorem load_auth_from_env_parses_entries_witness:
  "load_entry (sample_externals (sample_response 200 ''OK'' [])) []
       (''AUTH_Z'', ''http://Files.Example.org:8080/base|alice:pa:ss|word'')
     = Inr [(''files.example.org:8080'',
             \<lparr>username = ''alice'', password = ''pa:ss|word'',
                base_url = ''http://Files.Example.org:8080/base''\<rparr>)]
   \<and> load_entry (sample_externals (sample_response 200 ''OK'' [])) []
       (''AUTH_Y'', ''no-separator'') = Inr []
   \<and> load_entry (sample_externals (sample_response 200 ''OK'' [])) []
       (''AUTH_Z'', ''https://example.com|nocolon'') = Inr []
   \<and> load_entry (sample_externals (sample_response 200 ''OK'' [])) []
       (''AUTH_Z'', ''https:///base|alice:pw'') = Inr []
   \<and> load_entry (sample_externals (sample_response 200 ''OK'' [])) []
       (''PATH'', ''https://example.com|bob:secret'') = Inr []"
proof -
  let ?w = "sample_externals (sample_response 200 ''OK'' [])"
  let ?pb = "\<lparr>scheme = ''http'', netloc = ''Files.Example.org:8080'', path = ''/base'',
               params = [], query = [], fragment = []\<rparr>"
  let ?pe = "\<lparr>scheme = ''https'', netloc = [], path = ''/base'',
               params = [], query = [], fragment = []\<rparr>"
  have k: "startswith ''AUTH_Z'' ''AUTH_''" by (simp add: startswith_def)
  have nk: "\<not> startswith ''PATH'' ''AUTH_''" by (simp add: startswith_def)
  have pb: "urlparse ?w ''http://Files.Example.org:8080/base'' = Inr ?pb" by code_simp
  have pe: "urlparse ?w ''https:///base'' = Inr ?pe" by code_simp
  have lo: "lower ''Files.Example.org:8080'' = ''files.example.org:8080''" by code_simp
  have b1: "CHR ''|'' \<notin> set ''http://Files.Example.org:8080/base''" by simp
  have u1: "CHR '':'' \<notin> set ''alice''" by simp
  have n1: "netloc ?pb \<noteq> []" by simp
  have v2: "CHR ''|'' \<notin> set ''no-separator''" by simp
  have b3: "CHR ''|'' \<notin> set ''https://example.com''" by simp
  have a3: "CHR '':'' \<notin> set ''nocolon''" by simp
  have b4: "CHR ''|'' \<notin> set ''https:///base''" by simp
  have n4: "netloc ?pe = []" by simp
  note t = load_auth_from_env_parses_entries
  have "load_entry ?w [] (''AUTH_Z'', ''http://Files.Example.org:8080/base'' @ ''|'' @ ''alice'' @ '':'' @ ''pa:ss|word'')
     = Inr (AList.update (lower (netloc ?pb))
             \<lparr>username = ''alice'', password = ''pa:ss|word'',
                base_url = ''http://Files.Example.org:8080/base''\<rparr> [])"
    using t [where key = "''AUTH_Z''" and b = "''http://Files.Example.org:8080/base''"
               and u = "''alice''" and w = ?w and pb = ?pb] k b1 u1 pb n1 by blast
  moreover have "load_entry ?w [] (''AUTH_Y'', ''no-separator'') = Inr []"
    using t [where v = "''no-separator''"] v2 by blast
  moreover have "load_entry ?w [] (''AUTH_Z'', ''https://example.com'' @ ''|'' @ ''nocolon'') = Inr []"
    using t [where b = "''https://example.com''" and a = "''nocolon''"] b3 a3 by blast
  moreover have "load_entry ?w [] (''AUTH_Z'', ''https:///base'' @ ''|'' @ ''alice'' @ '':'' @ ''pw'') = Inr []"
    using t [where b = "''https:///base''" and u = "''alice''" and w = ?w and pb = ?pe] b4 u1 pe n4
    by blast
  moreover have "load_entry ?w [] (''PATH'', ''https://example.com|bob:secret'') = Inr []"
    using t [where key = "''PATH''"] nk by blast
  ultimately show ?thesis
    by (simp add: lo)
qed

lemma length_lower: "length (lower s) = length s"
  by (simp add: lower_def)

lemma lower_port_differs: "lower (n @ '':'' @ prt) \<noteq> lower n"
proof
  assume "lower (n @ '':'' @ prt) = lower n"
  then have "length (lower (n @ '':'' @ prt)) = length (lower n)" by simp
  then show False by (simp add: length_lower)
qed

text \<open>
  C10. The table is keyed on the whole lower-cased netloc of the base URL. After loading
  one route for a base URL with netloc \<open>n\<close>, \<^verbatim>\<open>get_auth_for_url\<close> on a URL whose netloc is
  \<open>n\<close> followed by \<^verbatim>\<open>:\<close> and a port finds no entry, unless the table already had one for
  that netloc with the port: it returns nothing, or the Twilio pair when the netloc with its
  port contains \<^verbatim>\<open>twilio.com\<close> and both Twilio fields are set.
\<close>

theorem port_bearing_netloc_misses_route:
  assumes "startswith key ''AUTH_''" and "CHR ''|'' \<notin> set b" and "CHR '':'' \<notin> set user"
    and "urlparse w b = Inr pb" and "netloc pb \<noteq> []"
    and "urlparse w url = Inr pu" and "netloc pu = netloc pb @ '':'' @ prt"
    and "map_of (auth_credentials config) (lower (netloc pu)) = None"
    and "config' = config\<lparr>auth_credentials :=
            AList.update (lower (netloc pb))
              \<lparr>username = user, password = pass, base_url = b\<rparr> (auth_credentials config)\<rparr>"
  shows "load_auth_from_env w config [(key, b @ ''|'' @ user @ '':'' @ pass)] = Inr config'
         \<and> map_of (auth_credentials config') (lower (netloc pb))
             = Some \<lparr>username = user, password = pass, base_url = b\<rparr>
         \<and> map_of (auth_credentials config') (lower (netloc pu)) = None
         \<and> get_auth_for_url w config' url
             = Inr (if str_in ''twilio.com'' (lower (netloc pu))
                       \<and> twilio_account_sid config \<noteq> [] \<and> twilio_auth_token config \<noteq> []
                    then Some (twilio_account_sid config, twilio_auth_token config)
                    else None)"
proof -
  have l: "load_auth_from_env w config [(key, b @ ''|'' @ user @ '':'' @ pass)] = Inr config'"
    using load_entry_route [OF assms(1-5), of "auth_credentials config" pass] assms(9)
    by (simp add: load_auth_from_env_def)
  have ne: "lower (netloc pu) \<noteq> lower (netloc pb)"
    unfolding assms(7) by (rule lower_port_differs)
  have m1: "map_of (auth_credentials config') (lower (netloc pb))
             = Some \<lparr>username = user, password = pass, base_url = b\<rparr>"
    by (simp add: assms(9) update_conv')
  have m2: "map_of (auth_credentials config') (lower (netloc pu)) = None"
    using ne assms(8) by (simp add: assms(9) update_conv')
  have g: "get_auth_for_url w config' url
             = Inr (if str_in ''twilio.com'' (lower (netloc pu))
                       \<and> twilio_account_sid config \<noteq> [] \<and> twilio_auth_token config \<noteq> []
                    then Some (twilio_account_sid config, twilio_auth_token config)
                    else None)"
    using m2 by (simp add: get_auth_for_url_def assms(6) Let_def) (simp add: assms(9))
  from l m1 m2 g show ?thesis by blast
qed


theorem port_bearing_netloc_misses_route_witness:
  "load_auth_from_env (sample_externals (sample_response 200 ''OK'' [])) sample_config
       [(''AUTH_X'', ''https://example.com|bob:secret'')]
     = Inr (sample_config\<lparr>auth_credentials :=
              [(''sub.twilio.com'',
                \<lparr>username = ''carol'', password = ''table-secret'',
                   base_url = ''https://sub.twilio.com''\<rparr>),
               (''example.com'',
                \<lparr>username = ''bob'', password = ''secret'', base_url = ''https://example.com''\<rparr>)]\<rparr>)
   \<and> get_auth_for_url (sample_externals (sample_response 200 ''OK'' []))
       (sample_config\<lparr>auth_credentials :=
              [(''sub.twilio.com'',
                \<lparr>username = ''carol'', password = ''table-secret'',
                   base_url = ''https://sub.twilio.com''\<rparr>),
               (''example.com'',
                \<lparr>username = ''bob'', password = ''secret'', base_url = ''https://example.com''\<rparr>)]\<rparr>)
       ''https://example.com:8080/f''
     = Inr None
   \<and> get_auth_for_url (sample_externals (sample_response 200 ''OK'' []))
       (sample_config\<lparr>auth_credentials :=
              [(''sub.twilio.com'',
                \<lparr>username = ''dave'', password = ''pw'', base_url = ''https://sub.twilio.com''\<rparr>)]\<rparr>)
       ''https://sub.twilio.com:8443/f''
     = Inr (Some (''AC0123'', ''token-one''))"
proof -
  let ?w = "sample_externals (sample_response 200 ''OK'' [])"
  let ?pb = "\<lparr>scheme = ''https'', netloc = ''example.com'', path = [], params = [],
               query = [], fragment = []\<rparr>"
  let ?pu = "\<lparr>scheme = ''https'', netloc = ''example.com:8080'', path = ''/f'', params = [],
               query = [], fragment = []\<rparr>"
  let ?qb = "\<lparr>scheme = ''https'', netloc = ''sub.twilio.com'', path = [], params = [],
               query = [], fragment = []\<rparr>"
  let ?qu = "\<lparr>scheme = ''https'', netloc = ''sub.twilio.com:8443'', path = ''/f'', params = [],
               query = [], fragment = []\<rparr>"
  have k: "startswith ''AUTH_X'' ''AUTH_''" by (simp add: startswith_def)
  have b1: "CHR ''|'' \<notin> set ''https://example.com''" by simp
  have b2: "CHR ''|'' \<notin> set ''https://sub.twilio.com''" by simp
  have u1: "CHR '':'' \<notin> set ''bob''" by simp
  have u2: "CHR '':'' \<notin> set ''dave''" by simp
  have pb: "urlparse ?w ''https://example.com'' = Inr ?pb" by code_simp
  have pu: "urlparse ?w ''https://example.com:8080/f'' = Inr ?pu" by code_simp
  have qb: "urlparse ?w ''https://sub.twilio.com'' = Inr ?qb" by code_simp
  have qu: "urlparse ?w ''https://sub.twilio.com:8443/f'' = Inr ?qu" by code_simp
  have n1: "netloc ?pb \<noteq> []" by simp
  have n2: "netloc ?qb \<noteq> []" by simp
  have e1: "netloc ?pu = netloc ?pb @ '':'' @ ''8080''" by simp
  have e2: "netloc ?qu = netloc ?qb @ '':'' @ ''8443''" by simp
  have l1: "lower ''example.com:8080'' = ''example.com:8080''" by code_simp
  have l2: "lower ''sub.twilio.com:8443'' = ''sub.twilio.com:8443''" by code_simp
  have l3: "lower ''sub.twilio.com'' = ''sub.twilio.com''" by code_simp
  have m1: "map_of (auth_credentials sample_config) (lower (netloc ?pu)) = None"
    by (simp add: l1 sample_config_def)
  have m2: "map_of (auth_credentials sample_config) (lower (netloc ?qu)) = None"
    by (simp add: l2 sample_config_def)
  have t1: "\<not> str_in ''twilio.com'' ''example.com:8080''" by code_simp
  have t2: "str_in ''twilio.com'' ''sub.twilio.com:8443''" by code_simp
  note a = port_bearing_netloc_misses_route [OF k b1 u1 pb n1 pu e1 m1 refl, of "''secret''"]
  note b = port_bearing_netloc_misses_route [OF k b2 u2 qb n2 qu e2 m2 refl, of "''pw''"]
  from a have "load_auth_from_env ?w sample_config
       [(''AUTH_X'', ''https://example.com|bob:secret'')]
     = Inr (sample_config\<lparr>auth_credentials :=
              [(''sub.twilio.com'',
                \<lparr>username = ''carol'', password = ''table-secret'',
                   base_url = ''https://sub.twilio.com''\<rparr>),
               (''example.com'',
                \<lparr>username = ''bob'', password = ''secret'', base_url = ''https://example.com''\<rparr>)]\<rparr>)"
    by (simp add: lower_example_com sample_config_def)
  moreover from a have "get_auth_for_url ?w
       (sample_config\<lparr>auth_credentials :=
              [(''sub.twilio.com'',
                \<lparr>username = ''carol'', password = ''table-secret'',
                   base_url = ''https://sub.twilio.com''\<rparr>),
               (''example.com'',
                \<lparr>username = ''bob'', password = ''secret'', base_url = ''https://example.com''\<rparr>)]\<rparr>)
       ''https://example.com:8080/f'' = Inr None"
    by (simp add: lower_example_com l1 t1 sample_config_def)
  moreover from b have "get_auth_for_url ?w
       (sample_config\<lparr>auth_credentials :=
              [(''sub.twilio.com'',
                \<lparr>username = ''dave'', password = ''pw'', base_url = ''https://sub.twilio.com''\<rparr>)]\<rparr>)
       ''https://sub.twilio.com:8443/f'' = Inr (Some (''AC0123'', ''token-one''))"
    by (simp add: l2 l3 t2 sample_config_def)
  ultimately show ?thesis by blast
qed

end
